theory Spec2Isabelle
  imports Complex_Main "HOL-Library.Char_ord" "HOL-Library.List_Lexorder"
begin

section \<open>Fraud-model training script: data model\<close>

text \<open>
  The script \<^verbatim>\<open>train_fraud_model.py\<close> is a linear pipeline over a pandas table.
  The embedding keeps its stages and their order. Conventions:
  \<^item> a numeric pandas column (int64 or float64) is a list of reals: float64 rounding is
    idealised away, integers are embedded exactly;
  \<^item> a table is a dictionary from column names to columns, as \<^verbatim>\<open>df[name]\<close> reads it;
  \<^item> a feature matrix is the list of its columns, in feature order;
  \<^item> a Python exception derived from \<^verbatim>\<open>Exception\<close> is a value of type \<open>exn\<close>, and a stage
    that can raise returns \<open>exn + result\<close>;
  \<^item> the artifact directory is a dictionary from paths to written documents; console
    output is not modelled, and writing into the directory made by \<^verbatim>\<open>create_dirs\<close>
    succeeds (outside the guarded ONNX step, where a failing write is a case).
\<close>

datatype exn =
    KeyError string
  | TypeError
  | ValueError
  | IndexError
  | OSError
  | ZeroDivisionError
  | LibraryError string

datatype column = NumCol "real list" | StrCol "string list"

type_synonym dataframe = "string \<rightharpoonup> column"

type_synonym matrix = "column list"

fun col_len :: "column \<Rightarrow> nat" where
  "col_len (NumCol xs) = length xs"
| "col_len (StrCol xs) = length xs"

text \<open>\<^verbatim>\<open>df[name]\<close>: a missing column raises \<^verbatim>\<open>KeyError(name)\<close>.\<close>

definition get_col :: "dataframe \<Rightarrow> string \<Rightarrow> exn + column" where
  "get_col df name = (case df name of None \<Rightarrow> Inl (KeyError name) | Some c \<Rightarrow> Inr c)"

text \<open>A numpy ufunc or an arithmetic operator with a float operand, applied to a column:
  a column of strings raises \<^verbatim>\<open>TypeError\<close>.\<close>

definition numeric :: "column \<Rightarrow> exn + real list" where
  "numeric c = (case c of NumCol xs \<Rightarrow> Inr xs | StrCol _ \<Rightarrow> Inl TypeError)"

definition get_numeric :: "dataframe \<Rightarrow> string \<Rightarrow> exn + real list" where
  "get_numeric df name = (case get_col df name of Inl e \<Rightarrow> Inl e | Inr c \<Rightarrow> numeric c)"

subsection \<open>Configuration constants\<close>

definition MODELS_DIR :: string where
  "MODELS_DIR = ''../../src/main/resources/models''"

definition TEST_SIZE :: real where
  "TEST_SIZE = 2 / 10"

definition RANDOM_STATE :: nat where
  "RANDOM_STATE = 42"

definition N_ESTIMATORS :: nat where
  "N_ESTIMATORS = 150"

definition MAX_DEPTH :: nat where
  "MAX_DEPTH = 15"

definition MIN_SAMPLES_SPLIT :: nat where
  "MIN_SAMPLES_SPLIT = 20"

definition MIN_SAMPLES_LEAF :: nat where
  "MIN_SAMPLES_LEAF = 10"

subsection \<open>Label encoder\<close>

text \<open>
  Modelled from the spec: the category encoder is scikit-learn's \<^verbatim>\<open>LabelEncoder\<close>, which
  is not part of the repository sources. Following the data model's words, fitting maps
  each observed category to a dense integer index assigned in sorted order
  (\<open>classes_\<close> is the sorted list of the distinct observed values), transforming a
  value looks its index up and raises \<^verbatim>\<open>ValueError\<close> on a value not seen at fit time,
  and the inverse transform reads \<open>classes_\<close> at the index and raises
  \<^verbatim>\<open>ValueError\<close> on an index out of range.
\<close>

definition label_fit :: "'a::linorder list \<Rightarrow> 'a list" where
  "label_fit ys = sort (remdups ys)"

fun index_of :: "'a list \<Rightarrow> 'a \<Rightarrow> nat" where
  "index_of [] y = 0"
| "index_of (c # cs) y = (if c = y then 0 else Suc (index_of cs y))"

definition label_transform :: "'a list \<Rightarrow> 'a list \<Rightarrow> exn + nat list" where
  "label_transform classes ys =
     (if list_all (\<lambda>y. y \<in> set classes) ys then Inr (map (index_of classes) ys)
      else Inl ValueError)"

definition label_inverse_transform :: "'a list \<Rightarrow> nat list \<Rightarrow> exn + 'a list" where
  "label_inverse_transform classes idx =
     (if list_all (\<lambda>i. i < length classes) idx then Inr (map (nth classes) idx)
      else Inl ValueError)"

text \<open>A fitted encoder is its \<^verbatim>\<open>classes_\<close> array (\<open>le_classes\<close>); \<^verbatim>\<open>fit_transform\<close> also returns the
  encoded column.\<close>

datatype label_encoder = LabelEncoder (le_classes: column)

definition fit_transform :: "column \<Rightarrow> label_encoder \<times> column" where
  "fit_transform c =
     (case c of
        StrCol ys \<Rightarrow>
          (LabelEncoder (StrCol (label_fit ys)),
           NumCol (map (\<lambda>y. real (index_of (label_fit ys) y)) ys))
      | NumCol ys \<Rightarrow>
          (LabelEncoder (NumCol (label_fit ys)),
           NumCol (map (\<lambda>y. real (index_of (label_fit ys) y)) ys)))"

subsection \<open>Artifacts\<close>

record scaler =
  sc_mean :: "real list"
  sc_scale :: "real list"

record scaler_params =
  sp_means :: "real list"
  sp_stds :: "real list"
  sp_n_features :: nat

record metrics =
  train_accuracy :: real
  test_accuracy :: real
  roc_auc :: real
  confusion_matrix_of :: "nat list list"
  feature_importance :: "(string \<times> real) list"

record model_config =
  cfg_n_estimators :: nat
  cfg_max_depth :: nat
  cfg_min_samples_split :: nat
  cfg_min_samples_leaf :: nat

record metadata =
  md_n_features :: nat
  md_feature_names :: "string list"
  md_metrics :: metrics
  md_model_config :: model_config

text \<open>The documents the script writes; \<open>'m\<close> is the library's fitted forest.\<close>

datatype 'm artifact =
    EncoderPkl label_encoder
  | ScalerPkl scaler
  | ModelPkl 'm
  | ScalerParamsJson scaler_params
  | MetadataJson metadata
  | FeatureImportanceCsv "(string \<times> real) list"
  | OnnxFile string

type_synonym 'm files = "string \<rightharpoonup> 'm artifact"

section \<open>Step 2: feature engineering\<close>

text \<open>
  \<^verbatim>\<open>np.log1p\<close> and \<^verbatim>\<open>np.sqrt\<close> are read as the real functions \<open>ln (1 + x)\<close> and \<open>sqrt\<close>.
  They are the same functions on amounts of at least 0, the amounts of the data model.
  On a negative amount numpy returns \<^verbatim>\<open>nan\<close> (and \<^verbatim>\<open>-inf\<close> for \<^verbatim>\<open>log1p(-1)\<close>), which a
  real number does not represent, while \<open>ln\<close> and \<open>sqrt\<close> stay total; so the columns
  \<^verbatim>\<open>amount_log\<close> and \<^verbatim>\<open>amount_sqrt\<close> are read only in rows whose amount is at least 0.
\<close>

definition log1p :: "real \<Rightarrow> real" where
  "log1p x = ln (1 + x)"

definition hour_sin_of :: "real \<Rightarrow> real" where
  "hour_sin_of h = sin (2 * pi * h / 24)"

definition hour_cos_of :: "real \<Rightarrow> real" where
  "hour_cos_of h = cos (2 * pi * h / 24)"

text \<open>\<^verbatim>\<open>((hour >= 0) & (hour <= 6) | (hour >= 22)).astype(int)\<close>: \<^verbatim>\<open>&\<close> binds tighter
  than \<^verbatim>\<open>|\<close>.\<close>

definition is_night_of :: "real \<Rightarrow> real" where
  "is_night_of h = (if (h \<ge> 0 \<and> h \<le> 6) \<or> h \<ge> 22 then 1 else 0)"

definition is_business_hours_of :: "real \<Rightarrow> real" where
  "is_business_hours_of h = (if h \<ge> 9 \<and> h \<le> 17 then 1 else 0)"

definition encoder_path :: "string \<Rightarrow> string" where
  "encoder_path name = MODELS_DIR @ ''/encoder_'' @ name @ ''.pkl''"

text \<open>The loop over the three categorical columns: each is read, encoded into
  \<^verbatim>\<open>{col}_encoded\<close>, and its encoder is stored in the \<^verbatim>\<open>encoders\<close> dictionary
  (kept in insertion order).\<close>

fun encode_columns ::
  "string list \<Rightarrow> dataframe \<Rightarrow> (string \<times> label_encoder) list
     \<Rightarrow> exn + dataframe \<times> (string \<times> label_encoder) list" where
  "encode_columns [] df encoders = Inr (df, encoders)"
| "encode_columns (col # cols) df encoders =
     (case get_col df col of
        Inl e \<Rightarrow> Inl e
      | Inr c \<Rightarrow>
          (case fit_transform c of
             (le, encoded) \<Rightarrow>
               encode_columns cols (df(col @ ''_encoded'' \<mapsto> encoded))
                 (encoders @ [(col, le)])))"

text \<open>\<^verbatim>\<open>for name, encoder in encoders.items(): joblib.dump(...)\<close>\<close>

fun save_encoders :: "(string \<times> label_encoder) list \<Rightarrow> 'm files \<Rightarrow> 'm files" where
  "save_encoders [] fs = fs"
| "save_encoders ((name, encoder) # rest) fs =
     save_encoders rest (fs(encoder_path name \<mapsto> EncoderPkl encoder))"

definition categorical_columns :: "string list" where
  "categorical_columns = [''transaction_type'', ''merchant_category'', ''country'']"

definition feature_engineering ::
  "dataframe \<Rightarrow> 'm files
     \<Rightarrow> (exn + dataframe \<times> (string \<times> label_encoder) list) \<times> 'm files" where
  "feature_engineering df0 fs =
     (case get_numeric df0 ''amount'' of
        Inl e \<Rightarrow> (Inl e, fs)
      | Inr amount \<Rightarrow>
     let df1 = df0(''amount_log'' \<mapsto> NumCol (map log1p amount),
                   ''amount_sqrt'' \<mapsto> NumCol (map sqrt amount)) in
     (case get_numeric df1 ''hour'' of
        Inl e \<Rightarrow> (Inl e, fs)
      | Inr hour \<Rightarrow>
     let df2 = df1(''hour_sin'' \<mapsto> NumCol (map hour_sin_of hour),
                   ''hour_cos'' \<mapsto> NumCol (map hour_cos_of hour),
                   ''is_night'' \<mapsto> NumCol (map is_night_of hour),
                   ''is_business_hours'' \<mapsto> NumCol (map is_business_hours_of hour)) in
     (case encode_columns categorical_columns df2 [] of
        Inl e \<Rightarrow> (Inl e, fs)
      | Inr (df3, encoders) \<Rightarrow>
     let fs1 = save_encoders encoders fs in
     (case get_col df3 ''device_risk_score'' of
        Inl e \<Rightarrow> (Inl e, fs1)
      | Inr device_col \<Rightarrow>
     (case get_col df3 ''ip_risk_score'' of
        Inl e \<Rightarrow> (Inl e, fs1)
      | Inr ip_col \<Rightarrow>
     (case numeric device_col of
        Inl e \<Rightarrow> (Inl e, fs1)
      | Inr device \<Rightarrow>
     (case numeric ip_col of
        Inl e \<Rightarrow> (Inl e, fs1)
      | Inr ip \<Rightarrow>
     let df4 = df3(''risk_score_product'' \<mapsto> NumCol (map2 (*) device ip),
                   ''risk_score_avg'' \<mapsto> NumCol (map2 (\<lambda>d i. (d + i) / 2) device ip),
                   ''risk_score_max'' \<mapsto> NumCol (map2 max device ip))
     in (Inr (df4, encoders), fs1))))))))"

section \<open>Step 1: loading\<close>

text \<open>
  \<^verbatim>\<open>pd.read_csv(DATA_FILE)\<close> is the input of the run: either the exception it raises
  (a missing or unreadable file) or the table. The class-distribution report then reads
  \<^verbatim>\<open>df['is_fraud'].sum()\<close> and divides it by \<^verbatim>\<open>len(df)\<close>: a missing label column raises
  \<^verbatim>\<open>KeyError\<close>; over a column of strings the sum is their concatenation (the integer 0
  when there is no row, as for a file with a header only), and the division raises
  \<^verbatim>\<open>TypeError\<close> (\<^verbatim>\<open>ZeroDivisionError\<close> when there is no row).
\<close>

definition load_and_explore_data :: "exn + dataframe \<Rightarrow> exn + dataframe" where
  "load_and_explore_data read_csv =
     (case read_csv of
        Inl e \<Rightarrow> Inl e
      | Inr df \<Rightarrow>
          (case get_col df ''is_fraud'' of
             Inl e \<Rightarrow> Inl e
           | Inr (NumCol ys) \<Rightarrow> Inr df
           | Inr (StrCol ys) \<Rightarrow> if ys = [] then Inl ZeroDivisionError else Inl TypeError))"

section \<open>Step 3: feature selection\<close>

definition feature_columns :: "string list" where
  "feature_columns =
     [''amount'', ''amount_log'', ''amount_sqrt'',
      ''hour'', ''hour_sin'', ''hour_cos'', ''is_night'', ''is_business_hours'',
      ''transaction_type_encoded'', ''merchant_category_encoded'', ''country_encoded'',
      ''device_risk_score'', ''ip_risk_score'',
      ''risk_score_product'', ''risk_score_avg'', ''risk_score_max'']"

text \<open>\<^verbatim>\<open>df[names].values\<close>: the selected columns, in the order of \<open>names\<close>. pandas raises
  one \<^verbatim>\<open>KeyError\<close> listing every missing name; the model reports the first.\<close>

fun select_columns :: "dataframe \<Rightarrow> string list \<Rightarrow> exn + matrix" where
  "select_columns df [] = Inr []"
| "select_columns df (name # names) =
     (case get_col df name of
        Inl e \<Rightarrow> Inl e
      | Inr c \<Rightarrow>
          (case select_columns df names of
             Inl e \<Rightarrow> Inl e
           | Inr cs \<Rightarrow> Inr (c # cs)))"

definition prepare_features :: "dataframe \<Rightarrow> exn + matrix \<times> column \<times> string list" where
  "prepare_features df =
     (case select_columns df feature_columns of
        Inl e \<Rightarrow> Inl e
      | Inr X \<Rightarrow>
          (case get_col df ''is_fraud'' of
             Inl e \<Rightarrow> Inl e
           | Inr y \<Rightarrow> Inr (X, y, feature_columns)))"

section \<open>Library routines taken as parameters\<close>

record rf_params =
  n_estimators :: nat
  max_depth :: nat
  min_samples_split :: nat
  min_samples_leaf :: nat
  random_state :: nat
  n_jobs :: int
  class_weight :: string
  verbose :: nat

text \<open>
  The statistical routines of scikit-learn that the script calls and whose results no
  property stated here depends on: each is a field, returning the exception it raises or its result.
  \<open>split_indices test_size seed stratify n\<close> is the pair of row-index arrays (train,
  test) that the stratified shuffle split draws for \<open>n\<close> rows.
\<close>

record 'm sklearn =
  split_indices :: "real \<Rightarrow> nat \<Rightarrow> column \<Rightarrow> nat \<Rightarrow> exn + nat list \<times> nat list"
  rf_fit :: "rf_params \<Rightarrow> matrix \<Rightarrow> column \<Rightarrow> exn + 'm"
  rf_score :: "'m \<Rightarrow> matrix \<Rightarrow> column \<Rightarrow> exn + real"
  rf_predict :: "'m \<Rightarrow> matrix \<Rightarrow> exn + column"
  rf_predict_proba :: "'m \<Rightarrow> matrix \<Rightarrow> exn + real list list"
  rf_feature_importances :: "'m \<Rightarrow> real list"
  classification_report :: "column \<Rightarrow> column \<Rightarrow> string list \<Rightarrow> exn + string"
  confusion_matrix :: "column \<Rightarrow> column \<Rightarrow> exn + nat list list"
  roc_auc_score :: "column \<Rightarrow> real list \<Rightarrow> exn + real"
  sort_values_desc :: "(string \<times> real) list \<Rightarrow> (string \<times> real) list"

text \<open>The ONNX converter and checker, when importable; \<open>'g\<close> is the ONNX graph.
  \<open>open_wb path\<close> is the exception raised by opening \<open>path\<close> for binary writing, if
  any.\<close>

record ('m, 'g) onnx_lib =
  ONNX_AVAILABLE :: bool
  convert_sklearn :: "'m \<Rightarrow> nat \<Rightarrow> nat \<Rightarrow> exn + 'g"
  SerializeToString :: "'g \<Rightarrow> exn + string"
  open_wb :: "string \<Rightarrow> exn option"
  onnx_load :: "string \<Rightarrow> exn + 'g"
  check_model :: "'g \<Rightarrow> exn + unit"

section \<open>Splitting\<close>

definition n_samples :: "matrix \<Rightarrow> nat" where
  "n_samples X = (case X of [] \<Rightarrow> 0 | c # _ \<Rightarrow> col_len c)"

text \<open>\<^verbatim>\<open>a[idx]\<close> on the rows of an array: an index out of range raises
  \<^verbatim>\<open>IndexError\<close>.\<close>

definition take_rows :: "nat list \<Rightarrow> column \<Rightarrow> exn + column" where
  "take_rows idx c =
     (if list_all (\<lambda>i. i < col_len c) idx
      then Inr (case c of NumCol xs \<Rightarrow> NumCol (map (nth xs) idx)
                        | StrCol xs \<Rightarrow> StrCol (map (nth xs) idx))
      else Inl IndexError)"

fun index_rows :: "nat list \<Rightarrow> matrix \<Rightarrow> exn + matrix" where
  "index_rows idx [] = Inr []"
| "index_rows idx (c # cs) =
     (case take_rows idx c of
        Inl e \<Rightarrow> Inl e
      | Inr c' \<Rightarrow>
          (case index_rows idx cs of
             Inl e \<Rightarrow> Inl e
           | Inr cs' \<Rightarrow> Inr (c' # cs')))"

text \<open>\<^verbatim>\<open>train_test_split(X, y, test_size=..., random_state=..., stratify=...)\<close>: arrays of
  inconsistent length raise \<^verbatim>\<open>ValueError\<close>; then the library draws the two index arrays
  and every array is indexed by them.\<close>

definition train_test_split ::
  "'m sklearn \<Rightarrow> matrix \<Rightarrow> column \<Rightarrow> real \<Rightarrow> nat \<Rightarrow> column
     \<Rightarrow> exn + matrix \<times> matrix \<times> column \<times> column" where
  "train_test_split sk X y test_size seed stratify =
     (if n_samples X \<noteq> col_len y then Inl ValueError
      else
        (case split_indices sk test_size seed stratify (n_samples X) of
           Inl e \<Rightarrow> Inl e
         | Inr (train, test) \<Rightarrow>
        (case index_rows train X of Inl e \<Rightarrow> Inl e | Inr X_train \<Rightarrow>
        (case index_rows test X of Inl e \<Rightarrow> Inl e | Inr X_test \<Rightarrow>
        (case take_rows train y of Inl e \<Rightarrow> Inl e | Inr y_train \<Rightarrow>
        (case take_rows test y of Inl e \<Rightarrow> Inl e | Inr y_test \<Rightarrow>
           Inr (X_train, X_test, y_train, y_test)))))))"

section \<open>Scaling\<close>

text \<open>
  Modelled from the spec: the scaler is scikit-learn's \<^verbatim>\<open>StandardScaler\<close>, which is not
  part of the repository sources. Following the spec, its parameters are the per-feature
  mean and (population) standard deviation of the matrix it is fit on, and transforming
  standardizes each feature column with them, \<open>(x - mean) / scale\<close>. As the library
  documents, a feature of zero standard deviation gets the scale 1, and fitting or
  transforming a matrix with no row, no column or a non-numeric column, or transforming
  a matrix of another width, raises \<^verbatim>\<open>ValueError\<close>.
\<close>

definition col_mean :: "real list \<Rightarrow> real" where
  "col_mean xs = sum_list xs / real (length xs)"

definition col_var :: "real list \<Rightarrow> real" where
  "col_var xs = sum_list (map (\<lambda>x. (x - col_mean xs)\<^sup>2) xs) / real (length xs)"

definition col_std :: "real list \<Rightarrow> real" where
  "col_std xs = sqrt (col_var xs)"

definition handle_zeros_in_scale :: "real \<Rightarrow> real" where
  "handle_zeros_in_scale s = (if s = 0 then 1 else s)"

fun as_float_array :: "matrix \<Rightarrow> exn + real list list" where
  "as_float_array [] = Inr []"
| "as_float_array (StrCol xs # cs) = Inl ValueError"
| "as_float_array (NumCol xs # cs) =
     (case as_float_array cs of Inl e \<Rightarrow> Inl e | Inr cols \<Rightarrow> Inr (xs # cols))"

definition check_array :: "matrix \<Rightarrow> exn + real list list" where
  "check_array X =
     (case as_float_array X of
        Inl e \<Rightarrow> Inl e
      | Inr cols \<Rightarrow> if cols = [] \<or> n_samples X = 0 then Inl ValueError else Inr cols)"

definition scaler_fit :: "matrix \<Rightarrow> exn + scaler" where
  "scaler_fit X =
     (case check_array X of
        Inl e \<Rightarrow> Inl e
      | Inr cols \<Rightarrow>
          Inr \<lparr> sc_mean = map col_mean cols,
                sc_scale = map (\<lambda>xs. handle_zeros_in_scale (col_std xs)) cols \<rparr>)"

definition standardize :: "real \<Rightarrow> real \<Rightarrow> real list \<Rightarrow> real list" where
  "standardize m s xs = map (\<lambda>x. (x - m) / s) xs"

definition scaler_transform :: "scaler \<Rightarrow> matrix \<Rightarrow> exn + matrix" where
  "scaler_transform sc X =
     (case check_array X of
        Inl e \<Rightarrow> Inl e
      | Inr cols \<Rightarrow>
          if length cols \<noteq> length (sc_mean sc) then Inl ValueError
          else Inr (map (\<lambda>(xs, m, s). NumCol (standardize m s xs))
                      (zip cols (zip (sc_mean sc) (sc_scale sc)))))"

definition scaler_fit_transform :: "matrix \<Rightarrow> exn + scaler \<times> matrix" where
  "scaler_fit_transform X =
     (case scaler_fit X of
        Inl e \<Rightarrow> Inl e
      | Inr sc \<Rightarrow>
          (case scaler_transform sc X of
             Inl e \<Rightarrow> Inl e
           | Inr Z \<Rightarrow> Inr (sc, Z)))"

text \<open>The three scaling lines of \<^verbatim>\<open>main\<close>: a fresh scaler is fit on \<^verbatim>\<open>X_train\<close> and
  transforms it, then transforms \<^verbatim>\<open>X_test\<close>.\<close>

definition scale_features :: "matrix \<Rightarrow> matrix \<Rightarrow> exn + scaler \<times> matrix \<times> matrix" where
  "scale_features X_train X_test =
     (case scaler_fit_transform X_train of
        Inl e \<Rightarrow> Inl e
      | Inr (sc, X_train_scaled) \<Rightarrow>
          (case scaler_transform sc X_test of
             Inl e \<Rightarrow> Inl e
           | Inr X_test_scaled \<Rightarrow> Inr (sc, X_train_scaled, X_test_scaled)))"

section \<open>Steps 4 and 5: training and evaluation\<close>

definition forest_params :: rf_params where
  "forest_params =
     \<lparr> n_estimators = N_ESTIMATORS, max_depth = MAX_DEPTH,
       min_samples_split = MIN_SAMPLES_SPLIT, min_samples_leaf = MIN_SAMPLES_LEAF,
       random_state = RANDOM_STATE, n_jobs = - 1, class_weight = ''balanced'',
       verbose = 1 \<rparr>"

definition train_model :: "'m sklearn \<Rightarrow> matrix \<Rightarrow> column \<Rightarrow> exn + 'm" where
  "train_model sk X_train y_train = rf_fit sk forest_params X_train y_train"

definition feature_importance_path :: string where
  "feature_importance_path = MODELS_DIR @ ''/feature_importance.csv''"

text \<open>\<^verbatim>\<open>predict_proba(X_test)[:, 1]\<close>: the second class column, \<^verbatim>\<open>IndexError\<close> when the
  forest knows a single class.\<close>

definition second_column :: "real list list \<Rightarrow> exn + real list" where
  "second_column P = (if length P < 2 then Inl IndexError else Inr (P ! 1))"

text \<open>The report prints \<^verbatim>\<open>cm[0,0]\<close>, \<^verbatim>\<open>cm[0,1]\<close>, \<^verbatim>\<open>cm[1,0]\<close> and \<^verbatim>\<open>cm[1,1]\<close>.\<close>

definition two_by_two :: "nat list list \<Rightarrow> bool" where
  "two_by_two cm = (2 \<le> length cm \<and> 2 \<le> length (cm ! 0) \<and> 2 \<le> length (cm ! 1))"

definition evaluate_model ::
  "'m sklearn \<Rightarrow> 'm \<Rightarrow> matrix \<Rightarrow> matrix \<Rightarrow> column \<Rightarrow> column \<Rightarrow> string list \<Rightarrow> 'm files
     \<Rightarrow> (exn + metrics) \<times> 'm files" where
  "evaluate_model sk model X_train X_test y_train y_test feature_cols fs =
     (case rf_score sk model X_train y_train of Inl e \<Rightarrow> (Inl e, fs) | Inr train_score \<Rightarrow>
     (case rf_score sk model X_test y_test of Inl e \<Rightarrow> (Inl e, fs) | Inr test_score \<Rightarrow>
     (case rf_predict sk model X_test of Inl e \<Rightarrow> (Inl e, fs) | Inr y_pred \<Rightarrow>
     (case rf_predict_proba sk model X_test of Inl e \<Rightarrow> (Inl e, fs) | Inr proba \<Rightarrow>
     (case second_column proba of Inl e \<Rightarrow> (Inl e, fs) | Inr y_pred_proba \<Rightarrow>
     (case classification_report sk y_test y_pred [''Legitimate'', ''Fraud''] of
        Inl e \<Rightarrow> (Inl e, fs) | Inr report \<Rightarrow>
     (case confusion_matrix sk y_test y_pred of Inl e \<Rightarrow> (Inl e, fs) | Inr cm \<Rightarrow>
     if \<not> two_by_two cm then (Inl IndexError, fs) else
     (case roc_auc_score sk y_test y_pred_proba of Inl e \<Rightarrow> (Inl e, fs) | Inr auc \<Rightarrow>
     if length feature_cols \<noteq> length (rf_feature_importances sk model)
     then (Inl ValueError, fs) else
     let importance =
           sort_values_desc sk (zip feature_cols (rf_feature_importances sk model));
         fs1 = fs(feature_importance_path \<mapsto> FeatureImportanceCsv importance)
     in (Inr \<lparr> train_accuracy = train_score, test_accuracy = test_score, roc_auc = auc,
               confusion_matrix_of = cm, feature_importance = importance \<rparr>, fs1)))))))))"

section \<open>Step 6: saving the artifacts\<close>

definition scaler_path :: string where
  "scaler_path = MODELS_DIR @ ''/scaler.pkl''"

definition model_path :: string where
  "model_path = MODELS_DIR @ ''/fraud_model.pkl''"

definition scaler_params_path :: string where
  "scaler_params_path = MODELS_DIR @ ''/scaler_params.json''"

definition metadata_path :: string where
  "metadata_path = MODELS_DIR @ ''/model_metadata.json''"

definition save_scaler_and_model ::
  "scaler \<Rightarrow> 'm \<Rightarrow> string list \<Rightarrow> metrics \<Rightarrow> 'm files \<Rightarrow> 'm files" where
  "save_scaler_and_model sc model feature_cols mtr fs =
     (let fs1 = fs(scaler_path \<mapsto> ScalerPkl sc);
          fs2 = fs1(model_path \<mapsto> ModelPkl model);
          scaler_params = \<lparr> sp_means = sc_mean sc, sp_stds = sc_scale sc,
                            sp_n_features = length feature_cols \<rparr>;
          fs3 = fs2(scaler_params_path \<mapsto> ScalerParamsJson scaler_params);
          metadata = \<lparr> md_n_features = length feature_cols,
                       md_feature_names = feature_cols,
                       md_metrics = mtr,
                       md_model_config =
                         \<lparr> cfg_n_estimators = N_ESTIMATORS, cfg_max_depth = MAX_DEPTH,
                           cfg_min_samples_split = MIN_SAMPLES_SPLIT,
                           cfg_min_samples_leaf = MIN_SAMPLES_LEAF \<rparr> \<rparr>
      in fs3(metadata_path \<mapsto> MetadataJson metadata))"

section \<open>Step 7: ONNX conversion\<close>

definition onnx_path :: string where
  "onnx_path = MODELS_DIR @ ''/fraud_detection.onnx''"

text \<open>The body of the \<^verbatim>\<open>try\<close> block: convert with a float input of
  \<^verbatim>\<open>len(feature_columns)\<close> entries and opset 12, open the file (which creates it empty),
  serialize and write, load the file again and check it.\<close>

definition onnx_try_body ::
  "('m, 'g) onnx_lib \<Rightarrow> 'm \<Rightarrow> string list \<Rightarrow> 'm files \<Rightarrow> (exn + bool) \<times> 'm files" where
  "onnx_try_body ox model feature_cols fs =
     (case convert_sklearn ox model (length feature_cols) 12 of
        Inl e \<Rightarrow> (Inl e, fs)
      | Inr onnx_model \<Rightarrow>
     (case open_wb ox onnx_path of
        Some e \<Rightarrow> (Inl e, fs)
      | None \<Rightarrow>
     (case SerializeToString ox onnx_model of
        Inl e \<Rightarrow> (Inl e, fs(onnx_path \<mapsto> OnnxFile []))
      | Inr bytes \<Rightarrow>
     let fs1 = fs(onnx_path \<mapsto> OnnxFile bytes) in
     (case onnx_load ox bytes of
        Inl e \<Rightarrow> (Inl e, fs1)
      | Inr onnx_model_check \<Rightarrow>
     (case check_model ox onnx_model_check of
        Inl e \<Rightarrow> (Inl e, fs1)
      | Inr _ \<Rightarrow> (Inr True, fs1))))))"

text \<open>\<^verbatim>\<open>except Exception as e: ... return False\<close>\<close>

definition convert_to_onnx ::
  "('m, 'g) onnx_lib \<Rightarrow> 'm \<Rightarrow> string list \<Rightarrow> 'm files \<Rightarrow> (exn + bool) \<times> 'm files" where
  "convert_to_onnx ox model feature_cols fs =
     (if \<not> ONNX_AVAILABLE ox then (Inr False, fs)
      else
        (case onnx_try_body ox model feature_cols fs of
           (Inl e, fs') \<Rightarrow> (Inr False, fs')
         | (Inr r, fs') \<Rightarrow> (Inr r, fs')))"

section \<open>The pipeline\<close>

text \<open>\<^verbatim>\<open>main\<close>, from the outcome of reading the data file to the summary it prints
  (whether the ONNX file was written, and the metrics), with the artifact directory
  before and after.\<close>

definition main ::
  "'m sklearn \<Rightarrow> ('m, 'g) onnx_lib \<Rightarrow> exn + dataframe \<Rightarrow> 'm files
     \<Rightarrow> (exn + bool \<times> metrics) \<times> 'm files" where
  "main sk ox read_csv fs =
     (case load_and_explore_data read_csv of Inl e \<Rightarrow> (Inl e, fs) | Inr df0 \<Rightarrow>
     (case feature_engineering df0 fs of (Inl e, fs1) \<Rightarrow> (Inl e, fs1)
      | (Inr (df, encoders), fs1) \<Rightarrow>
     (case prepare_features df of Inl e \<Rightarrow> (Inl e, fs1) | Inr (X, y, feature_cols) \<Rightarrow>
     (case train_test_split sk X y TEST_SIZE RANDOM_STATE y of Inl e \<Rightarrow> (Inl e, fs1)
      | Inr (X_train, X_test, y_train, y_test) \<Rightarrow>
     (case scale_features X_train X_test of Inl e \<Rightarrow> (Inl e, fs1)
      | Inr (sc, X_train_scaled, X_test_scaled) \<Rightarrow>
     (case train_model sk X_train_scaled y_train of Inl e \<Rightarrow> (Inl e, fs1) | Inr model \<Rightarrow>
     (case evaluate_model sk model X_train_scaled X_test_scaled y_train y_test
             feature_cols fs1 of
        (Inl e, fs2) \<Rightarrow> (Inl e, fs2)
      | (Inr mtr, fs2) \<Rightarrow>
     let fs3 = save_scaler_and_model sc model feature_cols mtr fs2 in
     (case convert_to_onnx ox model feature_cols fs3 of
        (Inl e, fs4) \<Rightarrow> (Inl e, fs4)
      | (Inr onnx_success, fs4) \<Rightarrow> (Inr (onnx_success, mtr), fs4)))))))))"

section \<open>Reading the tables and results\<close>

text \<open>\<open>cell df name i\<close> is the number in row \<open>i\<close> of the numeric column \<open>name\<close>
  (\<^verbatim>\<open>df[name].iloc[i]\<close>), if there is one.\<close>

definition cell :: "dataframe \<Rightarrow> string \<Rightarrow> nat \<Rightarrow> real option" where
  "cell df name i =
     (case df name of
        Some (NumCol xs) \<Rightarrow> if i < length xs then Some (xs ! i) else None
      | _ \<Rightarrow> None)"

text \<open>The table that feature engineering returns for the raw columns it has read.\<close>

definition engineered ::
  "dataframe \<Rightarrow> real list \<Rightarrow> real list \<Rightarrow> column \<Rightarrow> column \<Rightarrow> column
     \<Rightarrow> real list \<Rightarrow> real list \<Rightarrow> dataframe" where
  "engineered df am hr tt mc co dv ip =
     df(''amount_log'' \<mapsto> NumCol (map log1p am),
        ''amount_sqrt'' \<mapsto> NumCol (map sqrt am),
        ''hour_sin'' \<mapsto> NumCol (map hour_sin_of hr),
        ''hour_cos'' \<mapsto> NumCol (map hour_cos_of hr),
        ''is_night'' \<mapsto> NumCol (map is_night_of hr),
        ''is_business_hours'' \<mapsto> NumCol (map is_business_hours_of hr),
        ''transaction_type_encoded'' \<mapsto> snd (fit_transform tt),
        ''merchant_category_encoded'' \<mapsto> snd (fit_transform mc),
        ''country_encoded'' \<mapsto> snd (fit_transform co),
        ''risk_score_product'' \<mapsto> NumCol (map2 (*) dv ip),
        ''risk_score_avg'' \<mapsto> NumCol (map2 (\<lambda>d i. (d + i) / 2) dv ip),
        ''risk_score_max'' \<mapsto> NumCol (map2 max dv ip))"

text \<open>A feature matrix is an array: all its columns have the same number of rows.\<close>

definition rectangular :: "matrix \<Rightarrow> bool" where
  "rectangular X = list_all (\<lambda>c. col_len c = n_samples X) X"


section \<open>Example inputs\<close>

text \<open>A well-formed table of two transactions.\<close>

definition two_rows :: dataframe where
  "two_rows =
     [''amount'' \<mapsto> NumCol [120, 8],
      ''hour'' \<mapsto> NumCol [13, 23],
      ''transaction_type'' \<mapsto> StrCol [''payment'', ''transfer''],
      ''merchant_category'' \<mapsto> StrCol [''retail'', ''food''],
      ''country'' \<mapsto> StrCol [''TN'', ''FR''],
      ''device_risk_score'' \<mapsto> NumCol [1 / 4, 1 / 2],
      ''ip_risk_score'' \<mapsto> NumCol [1 / 2, 3 / 4],
      ''is_fraud'' \<mapsto> NumCol [0, 1]]"

text \<open>One transaction whose hour is -1.\<close>

definition negative_hour :: dataframe where
  "negative_hour =
     [''amount'' \<mapsto> NumCol [0],
      ''hour'' \<mapsto> NumCol [- 1],
      ''transaction_type'' \<mapsto> StrCol [''payment''],
      ''merchant_category'' \<mapsto> StrCol [''retail''],
      ''country'' \<mapsto> StrCol [''TN''],
      ''device_risk_score'' \<mapsto> NumCol [0],
      ''ip_risk_score'' \<mapsto> NumCol [0],
      ''is_fraud'' \<mapsto> NumCol [0]]"

text \<open>The engineered table of \<open>two_rows\<close>.\<close>

definition two_rows_out :: dataframe where
  "two_rows_out =
     engineered two_rows [120, 8] [13, 23] (StrCol [''payment'', ''transfer''])
       (StrCol [''retail'', ''food'']) (StrCol [''TN'', ''FR'']) [1 / 4, 1 / 2] [1 / 2, 3 / 4]"

text \<open>A stand-in for scikit-learn: it puts row 0 in the training partition and row 1 in
  the test partition, and every routine succeeds.\<close>

definition sk_ex :: "unit sklearn" where
  "sk_ex =
     \<lparr> split_indices = (\<lambda>test_size seed stratify n. Inr ([0], [1])),
       rf_fit = (\<lambda>params X y. Inr ()),
       rf_score = (\<lambda>model X y. Inr 1),
       rf_predict = (\<lambda>model X. Inr (NumCol [1])),
       rf_predict_proba = (\<lambda>model X. Inr [[0], [1]]),
       rf_feature_importances = (\<lambda>model. replicate 16 (1 / 16)),
       classification_report = (\<lambda>y_true y_pred names. Inr ''report''),
       confusion_matrix = (\<lambda>y_true y_pred. Inr [[0, 0], [0, 1]]),
       roc_auc_score = (\<lambda>y_true scores. Inr 1),
       sort_values_desc = (\<lambda>rows. rows) \<rparr>"

text \<open>An ONNX library whose converter raises.\<close>

definition ox_failing :: "(unit, unit) onnx_lib" where
  "ox_failing =
     \<lparr> ONNX_AVAILABLE = True,
       convert_sklearn = (\<lambda>model n opset. Inl (LibraryError ''unsupported operator'')),
       SerializeToString = (\<lambda>g. Inr ''bytes''),
       open_wb = (\<lambda>path. None),
       onnx_load = (\<lambda>bytes. Inr ()),
       check_model = (\<lambda>g. Inr ()) \<rparr>"

text \<open>The metrics \<open>sk_ex\<close> reports.\<close>

definition metrics_ex :: metrics where
  "metrics_ex =
     \<lparr> train_accuracy = 1, test_accuracy = 1, roc_auc = 1,
       confusion_matrix_of = [[0, 0], [0, 1]],
       feature_importance = zip feature_columns (replicate 16 (1 / 16)) \<rparr>"

text \<open>The feature matrix of \<open>two_rows\<close> and its two partitions.\<close>

definition X_ex :: matrix where
  "X_ex = map (\<lambda>name. the (two_rows_out name)) feature_columns"

definition X_train_ex :: matrix where
  "X_train_ex = [NumCol [120], NumCol (map log1p [120]), NumCol (map sqrt [120]),
     NumCol [13], NumCol (map hour_sin_of [13]), NumCol (map hour_cos_of [13]),
     NumCol [0], NumCol [1], NumCol [0], NumCol [1], NumCol [1],
     NumCol [1 / 4], NumCol [1 / 2], NumCol [1 / 8], NumCol [3 / 8], NumCol [1 / 2]]"

definition X_test_ex :: matrix where
  "X_test_ex = [NumCol [8], NumCol (map log1p [8]), NumCol (map sqrt [8]),
     NumCol [23], NumCol (map hour_sin_of [23]), NumCol (map hour_cos_of [23]),
     NumCol [1], NumCol [0], NumCol [1], NumCol [0], NumCol [0],
     NumCol [1 / 2], NumCol [3 / 4], NumCol [3 / 8], NumCol [5 / 8], NumCol [3 / 4]]"

text \<open>A training partition in which every transaction has the same country.\<close>

definition one_country :: matrix where
  "one_country = [NumCol [120, 8], NumCol (map log1p [120, 8]), NumCol (map sqrt [120, 8]),
     NumCol [13, 23], NumCol (map hour_sin_of [13, 23]), NumCol (map hour_cos_of [13, 23]),
     NumCol [0, 1], NumCol [1, 0],
     NumCol [0, 1], NumCol [1, 0], NumCol [0, 0],
     NumCol [1 / 4, 1 / 2], NumCol [1 / 2, 3 / 4],
     NumCol [1 / 8, 3 / 8], NumCol [3 / 8, 5 / 8], NumCol [1 / 2, 3 / 4]]"

text \<open>An ONNX library whose routines all succeed.\<close>

definition ox_ok :: "(unit, unit) onnx_lib" where
  "ox_ok =
     \<lparr> ONNX_AVAILABLE = True,
       convert_sklearn = (\<lambda>model n opset. Inr ()),
       SerializeToString = (\<lambda>g. Inr ''bytes''),
       open_wb = (\<lambda>path. None),
       onnx_load = (\<lambda>bytes. Inr ()),
       check_model = (\<lambda>g. Inr ()) \<rparr>"



section \<open>Properties of feature engineering\<close>

lemma get_numeric_Inr: "get_numeric df c = Inr xs \<longleftrightarrow> df c = Some (NumCol xs)"
  by (auto simp: get_numeric_def get_col_def numeric_def split: option.splits column.splits)

lemma get_col_Inr: "get_col df c = Inr x \<longleftrightarrow> df c = Some x"
  by (auto simp: get_col_def split: option.splits)

lemma numeric_Inr: "numeric c = Inr xs \<longleftrightarrow> c = NumCol xs"
  by (auto simp: numeric_def split: column.splits)

text \<open>A successful run of feature engineering has read the seven raw columns, and its
  results are determined by them.\<close>

lemma feature_engineering_Inr:
  assumes "feature_engineering df fs = (Inr (df', encs), fs')"
  shows "\<exists>am hr tt mc co dv ip.
     df ''amount'' = Some (NumCol am) \<and> df ''hour'' = Some (NumCol hr) \<and>
     df ''transaction_type'' = Some tt \<and> df ''merchant_category'' = Some mc \<and>
     df ''country'' = Some co \<and>
     df ''device_risk_score'' = Some (NumCol dv) \<and> df ''ip_risk_score'' = Some (NumCol ip) \<and>
     encs = [(''transaction_type'', fst (fit_transform tt)),
             (''merchant_category'', fst (fit_transform mc)),
             (''country'', fst (fit_transform co))] \<and>
     fs' = save_encoders encs fs \<and>
     df' = engineered df am hr tt mc co dv ip"
  using assms
  unfolding feature_engineering_def categorical_columns_def engineered_def
  by (auto simp: Let_def get_numeric_Inr get_col_Inr numeric_Inr split: sum.splits prod.splits)

lemma cell_Some:
  "cell df c i = Some v \<longleftrightarrow> (\<exists>xs. df c = Some (NumCol xs) \<and> i < length xs \<and> xs ! i = v)"
  by (auto simp: cell_def split: option.splits column.splits)

lemma two_rows_engineered:
  "feature_engineering two_rows (Map.empty :: unit files) =
     (Inr (engineered two_rows [120, 8] [13, 23] (StrCol [''payment'', ''transfer''])
             (StrCol [''retail'', ''food'']) (StrCol [''TN'', ''FR''])
             [1 / 4, 1 / 2] [1 / 2, 3 / 4],
           [(''transaction_type'', fst (fit_transform (StrCol [''payment'', ''transfer'']))),
            (''merchant_category'', fst (fit_transform (StrCol [''retail'', ''food'']))),
            (''country'', fst (fit_transform (StrCol [''TN'', ''FR''])))]),
      save_encoders
        [(''transaction_type'', fst (fit_transform (StrCol [''payment'', ''transfer'']))),
         (''merchant_category'', fst (fit_transform (StrCol [''retail'', ''food'']))),
         (''country'', fst (fit_transform (StrCol [''TN'', ''FR''])))] Map.empty)"
  by (simp add: feature_engineering_def two_rows_def get_numeric_def get_col_def numeric_def
      categorical_columns_def engineered_def Let_def split: prod.splits)

text \<open>
  C9. After feature engineering, in every row whose hour lies in 0..23, the flags
  \<open>is_night\<close> and \<open>is_business_hours\<close> are each 0 or 1 and are not both 1.
\<close>

theorem night_and_business_hours_exclusive:
  assumes "feature_engineering df fs = (Inr (df', encs), fs')"
    and "cell df ''hour'' i = Some h" and "0 \<le> h" and "h \<le> 23"
  shows "\<exists>n b. cell df' ''is_night'' i = Some n \<and> cell df' ''is_business_hours'' i = Some b
           \<and> (n = 0 \<or> n = 1) \<and> (b = 0 \<or> b = 1) \<and> \<not> (n = 1 \<and> b = 1)"
proof -
  from feature_engineering_Inr [OF assms(1)] obtain am hr tt mc co dv ip where
    hr: "df ''hour'' = Some (NumCol hr)" and
    df': "df' = engineered df am hr tt mc co dv ip"
    by blast
  from assms(2) hr have i: "i < length hr" and h: "hr ! i = h"
    by (auto simp: cell_Some)
  have n: "cell df' ''is_night'' i = Some (is_night_of h)"
    using i h by (simp add: df' engineered_def cell_def)
  have b: "cell df' ''is_business_hours'' i = Some (is_business_hours_of h)"
    using i h by (simp add: df' engineered_def cell_def)
  show ?thesis
    unfolding n b by (simp add: is_night_of_def is_business_hours_of_def)
qed

section \<open>Properties of the label encoder\<close>

lemma index_of_less: "y \<in> set cs \<Longrightarrow> index_of cs y < length cs"
  by (induction cs) auto

lemma nth_index_of: "y \<in> set cs \<Longrightarrow> cs ! index_of cs y = y"
  by (induction cs) auto

lemma set_label_fit: "set (label_fit ys) = set ys"
  by (simp add: label_fit_def)

lemma label_fit_sorted_distinct: "sorted (label_fit ys) \<and> distinct (label_fit ys)"
  by (simp add: label_fit_def)

text \<open>
  C4. An encoder fitted on a column of category strings round-trips: transforming
  categories that were all seen at fit time gives indices whose inverse transform is the
  original categories; transforming a column with a category not seen at fit time raises
  \<^verbatim>\<open>ValueError\<close>. The encoder that feature engineering fits on a string column holds
  exactly these fitted classes.
\<close>

theorem label_encoder_round_trip:
  fixes ys zs :: "string list"
  shows "(set zs \<subseteq> set ys \<longrightarrow>
            (\<exists>idx. label_transform (label_fit ys) zs = Inr idx
               \<and> label_inverse_transform (label_fit ys) idx = Inr zs))
       \<and> (\<not> set zs \<subseteq> set ys \<longrightarrow> label_transform (label_fit ys) zs = Inl ValueError)
       \<and> le_classes (fst (fit_transform (StrCol ys))) = StrCol (label_fit ys)"
proof (intro conjI impI)
  assume sub: "set zs \<subseteq> set ys"
  then have all: "list_all (\<lambda>y. y \<in> set (label_fit ys)) zs"
    by (auto simp: list_all_iff set_label_fit)
  have idx: "list_all (\<lambda>i. i < length (label_fit ys)) (map (index_of (label_fit ys)) zs)"
    using sub by (auto simp: list_all_iff set_label_fit intro!: index_of_less)
  have rt: "map (nth (label_fit ys)) (map (index_of (label_fit ys)) zs) = zs"
    using sub by (auto simp: set_label_fit nth_index_of intro!: map_idI)
  show "\<exists>idx. label_transform (label_fit ys) zs = Inr idx
               \<and> label_inverse_transform (label_fit ys) idx = Inr zs"
    using all idx rt by (simp add: label_transform_def label_inverse_transform_def)
next
  assume "\<not> set zs \<subseteq> set ys"
  then have "\<not> list_all (\<lambda>y. y \<in> set (label_fit ys)) zs"
    by (auto simp: list_all_iff set_label_fit)
  then show "label_transform (label_fit ys) zs = Inl ValueError"
    by (simp add: label_transform_def)
next
  show "le_classes (fst (fit_transform (StrCol ys))) = StrCol (label_fit ys)"
    by (simp add: fit_transform_def)
qed

theorem label_encoder_round_trip_witness:
  "label_transform (label_fit [''TN'', ''FR'', ''TN'', ''DZ'']) [''TN'', ''DZ''] = Inr [2, 0]
   \<and> label_inverse_transform (label_fit [''TN'', ''FR'', ''TN'', ''DZ'']) [2, 0] = Inr [''TN'', ''DZ'']
   \<and> label_transform (label_fit [''TN'', ''FR'', ''TN'', ''DZ'']) [''IT''] = Inl ValueError"
  using label_encoder_round_trip [of "[''TN'', ''DZ'']" "[''TN'', ''FR'', ''TN'', ''DZ'']"]
    label_encoder_round_trip [of "[''IT'']" "[''TN'', ''FR'', ''TN'', ''DZ'']"]
  by (simp add: label_fit_def label_transform_def label_inverse_transform_def)

section \<open>Properties of the pipeline\<close>

subsection \<open>Derived columns\<close>

theorem night_and_business_hours_exclusive_witness:
  "cell two_rows ''hour'' 0 = Some 13
   \<and> cell two_rows_out ''is_night'' 0 = Some 0
   \<and> cell two_rows_out ''is_business_hours'' 0 = Some 1"
  using night_and_business_hours_exclusive [OF two_rows_engineered, of 0 13]
  by (simp add: cell_def two_rows_def two_rows_out_def engineered_def
      is_night_of_def is_business_hours_of_def)

text \<open>The script's night flag also tests \<open>hour \<ge> 0\<close>: below the hours of the day, at an
  hour of -1, the flag is 0.\<close>

lemma is_night_below_hours_of_day:
  "cell negative_hour ''hour'' 0 = Some (- 1)
   \<and> (case fst (feature_engineering negative_hour (Map.empty :: unit files)) of
          Inl e \<Rightarrow> None
        | Inr (df', encs) \<Rightarrow> cell df' ''is_night'' 0) = Some 0"
  by (simp add: feature_engineering_def negative_hour_def get_numeric_def get_col_def
      numeric_def categorical_columns_def Let_def cell_def is_night_of_def split: prod.splits)



subsection \<open>Stages of a completed run\<close>

lemma prepare_features_Inr:
  "prepare_features df = Inr (X, y, names) \<longleftrightarrow>
     names = feature_columns \<and> select_columns df feature_columns = Inr X \<and> df ''is_fraud'' = Some y"
  by (auto simp: prepare_features_def get_col_def split: sum.splits option.splits)

lemma select_columns_Inr:
  "select_columns df names = Inr X \<Longrightarrow> map df names = map Some X"
  by (induction names arbitrary: X) (auto simp: get_col_Inr split: sum.splits)

lemma load_and_explore_data_Inr:
  "load_and_explore_data read_csv = Inr d \<longleftrightarrow>
     read_csv = Inr d \<and> (\<exists>ys. d ''is_fraud'' = Some (NumCol ys))"
  by (auto simp: load_and_explore_data_def get_col_def
      split: sum.splits column.splits if_splits option.splits)

text \<open>A run that completes went through every stage.\<close>

lemma main_Inr:
  assumes "fst (main sk ox read_csv fs) = Inr r"
  shows "\<exists>df0 df encs fs1 X y X_train X_test y_train y_test sc Ztr Zte model mtr fs2 b.
     read_csv = Inr df0 \<and> load_and_explore_data read_csv = Inr df0 \<and>
     feature_engineering df0 fs = (Inr (df, encs), fs1) \<and>
     prepare_features df = Inr (X, y, feature_columns) \<and>
     train_test_split sk X y TEST_SIZE RANDOM_STATE y = Inr (X_train, X_test, y_train, y_test) \<and>
     scale_features X_train X_test = Inr (sc, Ztr, Zte) \<and>
     train_model sk Ztr y_train = Inr model \<and>
     evaluate_model sk model Ztr Zte y_train y_test feature_columns fs1 = (Inr mtr, fs2) \<and>
     convert_to_onnx ox model feature_columns
        (save_scaler_and_model sc model feature_columns mtr fs2) = (Inr b, snd (main sk ox read_csv fs)) \<and>
     r = (b, mtr)"
proof -
  from assms obtain df0 where
    l: "load_and_explore_data read_csv = Inr df0"
    by (cases "load_and_explore_data read_csv") (auto simp: main_def)
  obtain a fs1 where fe0: "feature_engineering df0 fs = (a, fs1)"
    by (cases "feature_engineering df0 fs")
  with assms l obtain df encs where a: "a = Inr (df, encs)"
    by (cases a) (auto simp: main_def)
  note fe = fe0 [unfolded a]
  from assms l fe obtain X y names where
    pf0: "prepare_features df = Inr (X, y, names)"
    by (cases "prepare_features df") (auto simp: main_def)
  then have names: "names = feature_columns"
    by (simp add: prepare_features_Inr)
  note pf = pf0 [unfolded names]
  from assms l fe pf obtain X_train X_test y_train y_test where
    tts: "train_test_split sk X y TEST_SIZE RANDOM_STATE y = Inr (X_train, X_test, y_train, y_test)"
    by (cases "train_test_split sk X y TEST_SIZE RANDOM_STATE y") (auto simp: main_def)
  from assms l fe pf tts obtain sc Ztr Zte where
    scf: "scale_features X_train X_test = Inr (sc, Ztr, Zte)"
    by (cases "scale_features X_train X_test") (auto simp: main_def)
  from assms l fe pf tts scf obtain model where
    tm: "train_model sk Ztr y_train = Inr model"
    by (cases "train_model sk Ztr y_train") (auto simp: main_def)
  obtain m fs2 where ev0:
    "evaluate_model sk model Ztr Zte y_train y_test feature_columns fs1 = (m, fs2)"
    by (cases "evaluate_model sk model Ztr Zte y_train y_test feature_columns fs1")
  with assms l fe pf tts scf tm obtain mtr where m: "m = Inr mtr"
    by (cases m) (auto simp: main_def)
  note ev = ev0 [unfolded m]
  obtain c fs4 where cv0:
    "convert_to_onnx ox model feature_columns
       (save_scaler_and_model sc model feature_columns mtr fs2) = (c, fs4)"
    by (cases "convert_to_onnx ox model feature_columns
       (save_scaler_and_model sc model feature_columns mtr fs2)")
  with assms l fe pf tts scf tm ev obtain b where c: "c = Inr b"
    by (cases c) (auto simp: main_def Let_def)
  note cv = cv0 [unfolded c]
  have res: "main sk ox read_csv fs = (Inr (b, mtr), fs4)"
    using l fe pf tts scf tm ev cv by (simp add: main_def Let_def)
  with assms have r: "r = (b, mtr)" by simp
  from l have rd: "read_csv = Inr df0" by (simp add: load_and_explore_data_Inr)
  show ?thesis
    using rd l fe pf tts scf tm ev cv r res by auto
qed

subsection \<open>The run on the example table\<close>

lemma two_rows_loaded: "load_and_explore_data (Inr two_rows) = Inr two_rows"
  by (simp add: load_and_explore_data_def get_col_def two_rows_def)

lemma two_rows_prepared:
  "prepare_features two_rows_out = Inr (X_ex, NumCol [0, 1], feature_columns)"
  by (simp add: prepare_features_def feature_columns_def get_col_def two_rows_out_def
      engineered_def two_rows_def X_ex_def)

lemma col_stats_single [simp]:
  "col_mean [x] = x" "col_std [x] = 0" "handle_zeros_in_scale 0 = 1"
  by (simp_all add: col_mean_def col_std_def col_var_def handle_zeros_in_scale_def)

lemma X_ex_value:
  "X_ex = [NumCol [120, 8], NumCol (map log1p [120, 8]), NumCol (map sqrt [120, 8]),
     NumCol [13, 23], NumCol (map hour_sin_of [13, 23]), NumCol (map hour_cos_of [13, 23]),
     NumCol [0, 1], NumCol [1, 0],
     NumCol [0, 1], NumCol [1, 0], NumCol [1, 0],
     NumCol [1 / 4, 1 / 2], NumCol [1 / 2, 3 / 4],
     NumCol [1 / 8, 3 / 8], NumCol [3 / 8, 5 / 8], NumCol [1 / 2, 3 / 4]]"
  by (simp add: X_ex_def feature_columns_def two_rows_out_def engineered_def two_rows_def
      fit_transform_def label_fit_def is_night_of_def is_business_hours_of_def)

lemma two_rows_split:
  "train_test_split sk_ex X_ex (NumCol [0, 1]) TEST_SIZE RANDOM_STATE (NumCol [0, 1])
      = Inr (X_train_ex, X_test_ex, NumCol [0], NumCol [1])"
  by (simp add: X_ex_value train_test_split_def n_samples_def sk_ex_def take_rows_def
      X_train_ex_def X_test_ex_def)

lemma two_rows_scaled:
  "\<exists>sc Ztr Zte. scale_features X_train_ex X_test_ex = Inr (sc, Ztr, Zte)
     \<and> sc_mean sc = [120, log1p 120, sqrt 120, 13, hour_sin_of 13, hour_cos_of 13,
          0, 1, 0, 1, 1, 1 / 4, 1 / 2, 1 / 8, 3 / 8, 1 / 2]
     \<and> sc_scale sc = [1, 1, 1, 1, 1, 1, 1, 1, 1, 1, 1, 1, 1, 1, 1, 1]"
  by (simp add: X_train_ex_def X_test_ex_def
    scale_features_def scaler_fit_transform_def scaler_fit_def scaler_transform_def
      check_array_def n_samples_def)

lemma main_two_rows:
  "fst (main sk_ex ox_failing (Inr two_rows) Map.empty) = Inr (False, metrics_ex)"
proof -
  obtain sc Ztr Zte where sc: "scale_features X_train_ex X_test_ex = Inr (sc, Ztr, Zte)"
    using two_rows_scaled by blast
  have tm: "train_model sk_ex Ztr y = Inr ()" for y
    by (simp add: train_model_def sk_ex_def)
  have ev: "fst (evaluate_model sk_ex () Ztr Zte ytr yte feature_columns fs) = Inr metrics_ex"
    for ytr yte and fs :: "unit files"
    by (simp add: evaluate_model_def sk_ex_def second_column_def two_by_two_def
        feature_columns_def metrics_ex_def Let_def)
  have cv: "fst (convert_to_onnx ox_failing m fc fs) = Inr False" for m fc and fs :: "unit files"
    by (simp add: convert_to_onnx_def onnx_try_body_def ox_failing_def)
  define fs1 :: "unit files" where
    "fs1 = save_encoders
        [(''transaction_type'', fst (fit_transform (StrCol [''payment'', ''transfer'']))),
         (''merchant_category'', fst (fit_transform (StrCol [''retail'', ''food'']))),
         (''country'', fst (fit_transform (StrCol [''TN'', ''FR''])))] Map.empty"
  obtain fs2 where ev': "evaluate_model sk_ex () Ztr Zte (NumCol [0]) (NumCol [1])
      feature_columns fs1 = (Inr metrics_ex, fs2)"
    using ev [of "NumCol [0]" "NumCol [1]" fs1] by (metis prod.collapse)
  obtain fs4 where cv': "convert_to_onnx ox_failing () feature_columns
      (save_scaler_and_model sc () feature_columns metrics_ex fs2) = (Inr False, fs4)"
    using cv by (metis prod.collapse)
  show ?thesis
    by (simp add: main_def two_rows_loaded
        two_rows_engineered [folded two_rows_out_def, folded fs1_def]
        two_rows_prepared two_rows_split sc tm ev' cv')
qed

subsection \<open>Standardization\<close>

lemma sum_list_standardize:
  "sum_list (standardize m s xs) = (sum_list xs - real (length xs) * m) / s"
  by (induction xs) (simp_all add: standardize_def field_simps add_divide_distrib diff_divide_distrib)

lemma col_mean_standardize:
  assumes "xs \<noteq> []"
  shows "col_mean (standardize (col_mean xs) s xs) = 0"
  using assms by (simp add: col_mean_def sum_list_standardize)

lemma length_standardize [simp]: "length (standardize m s xs) = length xs"
  by (simp add: standardize_def)

lemma sum_list_sq_standardize:
  "sum_list (map (\<lambda>z. z\<^sup>2) (standardize m s xs)) = sum_list (map (\<lambda>x. (x - m)\<^sup>2) xs) / s\<^sup>2"
  by (induction xs) (simp_all add: standardize_def power_divide add_divide_distrib)

lemma col_var_standardize:
  assumes "xs \<noteq> []"
  shows "col_var (standardize (col_mean xs) s xs) = col_var xs / s\<^sup>2"
proof -
  have "col_var (standardize (col_mean xs) s xs)
        = sum_list (map (\<lambda>z. z\<^sup>2) (standardize (col_mean xs) s xs)) / real (length xs)"
    unfolding col_var_def using col_mean_standardize [OF assms, of s] by simp
  then show ?thesis
    by (simp add: sum_list_sq_standardize col_var_def)
qed

lemma col_var_nonneg: "0 \<le> col_var xs"
  unfolding col_var_def by (intro divide_nonneg_nonneg sum_list_nonneg) auto

lemma col_std_standardize:
  assumes "xs \<noteq> []"
  shows "col_std (standardize (col_mean xs) (handle_zeros_in_scale (col_std xs)) xs)
         = (if col_std xs = 0 then 0 else 1)"
proof (cases "col_std xs = 0")
  case True
  then have "col_var xs = 0" by (simp add: col_std_def)
  with True show ?thesis
    by (simp add: col_std_def col_var_standardize [OF assms] handle_zeros_in_scale_def)
next
  case False
  then have "col_var xs \<noteq> 0" by (auto simp: col_std_def)
  moreover have "(col_std xs)\<^sup>2 = col_var xs"
    by (simp add: col_std_def col_var_nonneg)
  ultimately show ?thesis using False
    by (simp add: col_std_def col_var_standardize [OF assms] handle_zeros_in_scale_def)
qed

lemma sum_list_sq_zero:
  fixes f :: "'a \<Rightarrow> real"
  shows "sum_list (map (\<lambda>x. (f x)\<^sup>2) xs) = 0 \<longleftrightarrow> (\<forall>x\<in>set xs. f x = 0)"
proof (induction xs)
  case Nil
  then show ?case by simp
next
  case (Cons a xs)
  have "0 \<le> sum_list (map (\<lambda>x. (f x)\<^sup>2) xs)" by (intro sum_list_nonneg) auto
  then show ?case using Cons.IH
    by (auto simp: add_nonneg_eq_0_iff)
qed

lemma col_std_zero_iff:
  assumes "xs \<noteq> []"
  shows "col_std xs = 0 \<longleftrightarrow> (\<forall>x\<in>set xs. x = hd xs)"
proof
  assume "col_std xs = 0"
  then have "sum_list (map (\<lambda>x. (x - col_mean xs)\<^sup>2) xs) = 0"
    using assms by (simp add: col_std_def col_var_def)
  then have eq: "\<forall>x\<in>set xs. x = col_mean xs"
    by (simp add: sum_list_sq_zero)
  moreover have "hd xs \<in> set xs" using assms by simp
  ultimately show "\<forall>x\<in>set xs. x = hd xs" by metis
next
  assume c: "\<forall>x\<in>set xs. x = hd xs"
  then have "map (\<lambda>x. x) xs = map (\<lambda>_. hd xs) xs" by (intro map_cong) auto
  then have xs: "xs = replicate (length xs) (hd xs)" by (simp add: map_replicate_const)
  have "sum_list xs = real (length xs) * hd xs"
    by (subst xs) (simp add: sum_list_replicate)
  then have m: "col_mean xs = hd xs" using assms by (simp add: col_mean_def)
  have "sum_list (map (\<lambda>x. (x - col_mean xs)\<^sup>2) xs) = 0"
    using c by (simp add: sum_list_sq_zero m)
  then show "col_std xs = 0" by (simp add: col_std_def col_var_def)
qed

subsection \<open>Feature list, scaler parameters and metadata\<close>

lemma paths_distinct:
  "metadata_path \<noteq> onnx_path" "scaler_params_path \<noteq> onnx_path"
  "scaler_params_path \<noteq> metadata_path" "scaler_path \<noteq> onnx_path"
  "scaler_path \<noteq> metadata_path" "scaler_path \<noteq> scaler_params_path"
  "model_path \<noteq> onnx_path" "model_path \<noteq> metadata_path"
  "model_path \<noteq> scaler_params_path" "model_path \<noteq> scaler_path"
  by (simp_all add: metadata_path_def onnx_path_def scaler_params_path_def scaler_path_def
      model_path_def)

lemma convert_to_onnx_files:
  "p \<noteq> onnx_path \<Longrightarrow> snd (convert_to_onnx ox model fc fs) p = fs p"
  by (auto simp: convert_to_onnx_def onnx_try_body_def Let_def
      split: sum.splits option.splits)

lemma convert_to_onnx_Inr:
  "\<exists>b. fst (convert_to_onnx ox model fc fs) = Inr b"
  by (cases "onnx_try_body ox model fc fs"; cases "fst (onnx_try_body ox model fc fs)")
     (auto simp: convert_to_onnx_def)

lemma length_select_columns:
  "select_columns df names = Inr X \<Longrightarrow> length X = length names"
  by (induction names arbitrary: X) (auto split: sum.splits)

lemma length_index_rows:
  "index_rows idx X = Inr X' \<Longrightarrow> length X' = length X"
  by (induction X arbitrary: X') (auto split: sum.splits)

lemma length_as_float_array:
  "as_float_array X = Inr cols \<Longrightarrow> length cols = length X"
  by (induction X arbitrary: cols rule: as_float_array.induct) (auto split: sum.splits)

lemma check_array_Inr:
  "check_array X = Inr cols \<longleftrightarrow> as_float_array X = Inr cols \<and> cols \<noteq> [] \<and> n_samples X \<noteq> 0"
  by (auto simp: check_array_def split: sum.splits)

lemma scaler_fit_Inr:
  "scaler_fit X = Inr sc \<longleftrightarrow>
     (\<exists>cols. check_array X = Inr cols
        \<and> sc = \<lparr> sc_mean = map col_mean cols,
                  sc_scale = map (\<lambda>xs. handle_zeros_in_scale (col_std xs)) cols \<rparr>)"
  by (auto simp: scaler_fit_def split: sum.splits)

lemma scale_features_Inr:
  "scale_features X_train X_test = Inr (sc, Ztr, Zte) \<longleftrightarrow>
     scaler_fit X_train = Inr sc \<and> scaler_transform sc X_train = Inr Ztr
       \<and> scaler_transform sc X_test = Inr Zte"
  by (auto simp: scale_features_def scaler_fit_transform_def split: sum.splits)

lemma train_test_split_Inr:
  "train_test_split sk X y ts seed st = Inr (X_train, X_test, y_train, y_test) \<Longrightarrow>
     \<exists>train test. split_indices sk ts seed st (n_samples X) = Inr (train, test)
       \<and> index_rows train X = Inr X_train \<and> index_rows test X = Inr X_test
       \<and> take_rows train y = Inr y_train \<and> take_rows test y = Inr y_test"
  by (auto simp: train_test_split_def split: if_splits sum.splits prod.splits)

lemma length_feature_columns: "length feature_columns = 16"
  by (simp add: feature_columns_def)

text \<open>
  C1. In a run that completes, the training matrix is the selection of the 16 columns
  named by \<open>feature_columns\<close>, in that order, from the engineered table, and the
  \<open>feature_names\<close> list of the metadata document written by the run is that same list,
  element for element.
\<close>

theorem training_features_match_metadata:
  assumes "fst (main sk ox read_csv fs) = Inr r"
  shows "\<exists>df0 df encs fs1 X y md.
     read_csv = Inr df0
     \<and> feature_engineering df0 fs = (Inr (df, encs), fs1)
     \<and> prepare_features df = Inr (X, y, feature_columns)
     \<and> map df feature_columns = map Some X
     \<and> snd (main sk ox read_csv fs) metadata_path = Some (MetadataJson md)
     \<and> md_feature_names md = feature_columns
     \<and> md_n_features md = 16"
proof -
  from main_Inr [OF assms] obtain df0 df encs fs1 X y sc model mtr fs2 b where
    rd: "read_csv = Inr df0" and
    fe: "feature_engineering df0 fs = (Inr (df, encs), fs1)" and
    pf: "prepare_features df = Inr (X, y, feature_columns)" and
    cv: "convert_to_onnx ox model feature_columns
           (save_scaler_and_model sc model feature_columns mtr fs2)
         = (Inr b, snd (main sk ox read_csv fs))"
    by blast
  from pf have "select_columns df feature_columns = Inr X"
    by (simp add: prepare_features_Inr)
  then have sel: "map df feature_columns = map Some X"
    by (rule select_columns_Inr)
  have "snd (main sk ox read_csv fs) metadata_path
        = save_scaler_and_model sc model feature_columns mtr fs2 metadata_path"
    using convert_to_onnx_files [OF paths_distinct(1), of ox model feature_columns
        "save_scaler_and_model sc model feature_columns mtr fs2"] cv
    by simp
  then have "\<exists>md. snd (main sk ox read_csv fs) metadata_path = Some (MetadataJson md)
      \<and> md_feature_names md = feature_columns \<and> md_n_features md = 16"
    by (simp add: save_scaler_and_model_def Let_def length_feature_columns)
  with rd fe pf sel show ?thesis by blast
qed

theorem training_features_match_metadata_witness:
  "fst (main sk_ex ox_failing (Inr two_rows) Map.empty) = Inr (False, metrics_ex)
   \<and> map two_rows_out feature_columns = map Some X_ex
   \<and> (\<exists>md. snd (main sk_ex ox_failing (Inr two_rows) Map.empty) metadata_path
             = Some (MetadataJson md)
         \<and> md_feature_names md = feature_columns)"
  using training_features_match_metadata [OF main_two_rows]
    two_rows_engineered two_rows_prepared main_two_rows
  by (auto simp: prepare_features_Inr dest: select_columns_Inr)

text \<open>
  C10. In a run that completes, the scaler-parameters document has as many means and as
  many standard deviations as its \<open>n_features\<close> field says, and that number is the
  length of the selected feature list, 16.
\<close>

theorem scaler_params_consistent:
  assumes "fst (main sk ox read_csv fs) = Inr r"
  shows "\<exists>sp. snd (main sk ox read_csv fs) scaler_params_path = Some (ScalerParamsJson sp)
     \<and> length (sp_means sp) = sp_n_features sp
     \<and> length (sp_stds sp) = sp_n_features sp
     \<and> sp_n_features sp = length feature_columns
     \<and> length feature_columns = 16"
proof -
  from main_Inr [OF assms] obtain df X y X_train X_test y_train y_test sc Ztr Zte model mtr fs2 b
    where
    pf: "prepare_features df = Inr (X, y, feature_columns)" and
    tts: "train_test_split sk X y TEST_SIZE RANDOM_STATE y = Inr (X_train, X_test, y_train, y_test)" and
    scf: "scale_features X_train X_test = Inr (sc, Ztr, Zte)" and
    cv: "convert_to_onnx ox model feature_columns
           (save_scaler_and_model sc model feature_columns mtr fs2)
         = (Inr b, snd (main sk ox read_csv fs))"
    by blast
  from pf have "length X = length feature_columns"
    by (auto simp: prepare_features_Inr dest: length_select_columns)
  moreover from train_test_split_Inr [OF tts] have "length X_train = length X"
    by (auto dest: length_index_rows)
  moreover from scf obtain cols where
    "as_float_array X_train = Inr cols"
    "sc_mean sc = map col_mean cols"
    "sc_scale sc = map (\<lambda>xs. handle_zeros_in_scale (col_std xs)) cols"
    by (auto simp: scale_features_Inr scaler_fit_Inr check_array_Inr)
  ultimately have len: "length (sc_mean sc) = length feature_columns"
    "length (sc_scale sc) = length feature_columns"
    by (auto dest: length_as_float_array)
  have "snd (main sk ox read_csv fs) scaler_params_path
        = save_scaler_and_model sc model feature_columns mtr fs2 scaler_params_path"
    using convert_to_onnx_files [OF paths_distinct(2), of ox model feature_columns
        "save_scaler_and_model sc model feature_columns mtr fs2"] cv
    by simp
  then show ?thesis
    using len
    by (simp add: save_scaler_and_model_def Let_def length_feature_columns paths_distinct)
qed

theorem scaler_params_consistent_witness:
  "fst (main sk_ex ox_failing (Inr two_rows) Map.empty) = Inr (False, metrics_ex)
   \<and> (\<exists>sp. snd (main sk_ex ox_failing (Inr two_rows) Map.empty) scaler_params_path
             = Some (ScalerParamsJson sp)
         \<and> length (sp_means sp) = 16 \<and> length (sp_stds sp) = 16 \<and> sp_n_features sp = 16)"
  using scaler_params_consistent [OF main_two_rows] main_two_rows
  by auto

subsection \<open>Scaling\<close>

lemma scaler_transform_Inr:
  "scaler_transform sc X = Inr Z \<longleftrightarrow>
     (\<exists>cols. check_array X = Inr cols \<and> length cols = length (sc_mean sc)
        \<and> Z = map (\<lambda>(xs, m, s). NumCol (standardize m s xs))
                 (zip cols (zip (sc_mean sc) (sc_scale sc))))"
  by (auto simp: scaler_transform_def split: sum.splits)

text \<open>
  C5. The scaler's means and scales are those of the columns of the training partition;
  the test partition is standardized with exactly these parameters; and the fitted
  scaler (and the scaled training partition) is the same whatever the test partition is.
\<close>

theorem scaler_fit_on_training_partition_only:
  assumes "scale_features X_train X_test = Inr (sc, X_train_scaled, X_test_scaled)"
  shows "\<exists>train_cols test_cols.
       as_float_array X_train = Inr train_cols
     \<and> as_float_array X_test = Inr test_cols
     \<and> sc_mean sc = map col_mean train_cols
     \<and> sc_scale sc = map (\<lambda>xs. handle_zeros_in_scale (col_std xs)) train_cols
     \<and> X_test_scaled =
         map (\<lambda>(xs, m, s). NumCol (map (\<lambda>x. (x - m) / s) xs))
           (zip test_cols (zip (sc_mean sc) (sc_scale sc)))
     \<and> (\<forall>X_test' sc' Ztr' Zte'.
           scale_features X_train X_test' = Inr (sc', Ztr', Zte') \<longrightarrow>
             sc' = sc \<and> Ztr' = X_train_scaled)"
proof -
  from assms have fit: "scaler_fit X_train = Inr sc"
    and tr: "scaler_transform sc X_train = Inr X_train_scaled"
    and te: "scaler_transform sc X_test = Inr X_test_scaled"
    by (simp_all add: scale_features_Inr)
  from fit obtain train_cols where
    a: "as_float_array X_train = Inr train_cols" and
    m: "sc_mean sc = map col_mean train_cols" and
    s: "sc_scale sc = map (\<lambda>xs. handle_zeros_in_scale (col_std xs)) train_cols"
    by (auto simp: scaler_fit_Inr check_array_Inr)
  from te obtain test_cols where
    b: "as_float_array X_test = Inr test_cols" and
    z: "X_test_scaled = map (\<lambda>(xs, m, s). NumCol (standardize m s xs))
                 (zip test_cols (zip (sc_mean sc) (sc_scale sc)))"
    by (auto simp: scaler_transform_Inr check_array_Inr)
  have indep: "sc' = sc \<and> Ztr' = X_train_scaled"
    if "scale_features X_train X_test' = Inr (sc', Ztr', Zte')" for X_test' sc' Ztr' Zte'
    using that fit tr by (simp add: scale_features_Inr)
  from z have z': "X_test_scaled =
         map (\<lambda>(xs, m, s). NumCol (map (\<lambda>x. (x - m) / s) xs))
           (zip test_cols (zip (sc_mean sc) (sc_scale sc)))"
    by (simp add: standardize_def)
  show ?thesis
    using a b m s z' indep by blast
qed

theorem scaler_fit_on_training_partition_only_witness:
  "\<exists>sc Ztr Zte. scale_features X_train_ex X_test_ex = Inr (sc, Ztr, Zte)
     \<and> sc_mean sc = [120, log1p 120, sqrt 120, 13, hour_sin_of 13, hour_cos_of 13,
          0, 1, 0, 1, 1, 1 / 4, 1 / 2, 1 / 8, 3 / 8, 1 / 2]
     \<and> (\<exists>sc' Ztr' Zte'. scale_features X_train_ex X_train_ex = Inr (sc', Ztr', Zte') \<and> sc' = sc)"
proof -
  from two_rows_scaled obtain sc Ztr Zte where
    a: "scale_features X_train_ex X_test_ex = Inr (sc, Ztr, Zte)" and
    m: "sc_mean sc = [120, log1p 120, sqrt 120, 13, hour_sin_of 13, hour_cos_of 13,
          0, 1, 0, 1, 1, 1 / 4, 1 / 2, 1 / 8, 3 / 8, 1 / 2]"
    by blast
  from a have "scale_features X_train_ex X_train_ex = Inr (sc, Ztr, Ztr)"
    by (simp add: scale_features_Inr)
  with scaler_fit_on_training_partition_only [OF a] a m show ?thesis
    by blast
qed

subsection \<open>ONNX conversion\<close>

lemma convert_to_onnx_not_Inl [simp]: "convert_to_onnx ox model fc fs \<noteq> (Inl e, fs')"
  using convert_to_onnx_Inr [of ox model fc fs] by (cases "convert_to_onnx ox model fc fs") auto

lemma main_outcome_independent_of_onnx:
  "map_sum id snd (fst (main sk ox read_csv fs)) = map_sum id snd (fst (main sk ox' read_csv fs))"
  unfolding main_def Let_def
  apply (cases "load_and_explore_data read_csv"; simp)
  subgoal for df0
    apply (cases "feature_engineering df0 fs"; simp)
    subgoal for a fs1
      apply (cases a; simp)
      subgoal for p
        apply (cases p; simp)
        subgoal for df encs
          apply (cases "prepare_features df"; simp)
          apply (simp split: prod.splits sum.splits)
          done
        done
      done
    done
  done

lemma convert_to_onnx_result:
  "fst (convert_to_onnx ox model fc fs) =
     Inr (ONNX_AVAILABLE ox
          \<and> (\<exists>g bytes g'. convert_sklearn ox model (length fc) 12 = Inr g
                \<and> open_wb ox onnx_path = None
                \<and> SerializeToString ox g = Inr bytes
                \<and> onnx_load ox bytes = Inr g'
                \<and> check_model ox g' = Inr ()))"
proof (cases "ONNX_AVAILABLE ox")
  case False
  then show ?thesis by (simp add: convert_to_onnx_def)
next
  case av: True
  show ?thesis
  proof (cases "convert_sklearn ox model (length fc) 12")
    case (Inl e)
    with av show ?thesis by (simp add: convert_to_onnx_def onnx_try_body_def)
  next
    case g: (Inr g)
    show ?thesis
    proof (cases "open_wb ox onnx_path")
      case (Some e)
      with av g show ?thesis by (simp add: convert_to_onnx_def onnx_try_body_def)
    next
      case op: None
      show ?thesis
      proof (cases "SerializeToString ox g")
        case (Inl e)
        with av g op show ?thesis by (simp add: convert_to_onnx_def onnx_try_body_def)
      next
        case sr: (Inr bytes)
        show ?thesis
        proof (cases "onnx_load ox bytes")
          case (Inl e)
          with av g op sr show ?thesis
            by (simp add: convert_to_onnx_def onnx_try_body_def)
        next
          case ld: (Inr g')
          show ?thesis
          proof (cases "check_model ox g'")
            case (Inl e)
            with av g op sr ld show ?thesis
              by (simp add: convert_to_onnx_def onnx_try_body_def)
          next
            case (Inr u)
            with av g op sr ld show ?thesis
              by (simp add: convert_to_onnx_def onnx_try_body_def)
          qed
        qed
      qed
    qed
  qed
qed

text \<open>
  C2. The ONNX conversion step never raises: its outcome is always a boolean, true exactly
  when the converter is available and conversion, opening the file, serialization,
  reloading and validation all succeed, false in every other case; with the converter
  unavailable it returns false and leaves the files as they are whatever the library
  routines would do; and whether \<open>main\<close> ends in an error, and the metrics it reports,
  do not depend on the ONNX library.
\<close>

theorem convert_to_onnx_never_raises:
  "fst (convert_to_onnx ox model fc fs) =
     Inr (ONNX_AVAILABLE ox
          \<and> (\<exists>g bytes g'. convert_sklearn ox model (length fc) 12 = Inr g
                \<and> open_wb ox onnx_path = None
                \<and> SerializeToString ox g = Inr bytes
                \<and> onnx_load ox bytes = Inr g'
                \<and> check_model ox g' = Inr ()))
   \<and> convert_to_onnx (ox\<lparr>ONNX_AVAILABLE := False\<rparr>) model fc fs = (Inr False, fs)
   \<and> map_sum id snd (fst (main sk ox read_csv fs0))
       = map_sum id snd (fst (main sk ox' read_csv fs0))"
  using convert_to_onnx_result [of ox model fc fs]
    main_outcome_independent_of_onnx [of sk ox read_csv fs0 ox']
  by (simp add: convert_to_onnx_def)

theorem convert_to_onnx_never_raises_witness:
  "fst (convert_to_onnx ox_failing () feature_columns (Map.empty :: unit files)) = Inr False
   \<and> fst (convert_to_onnx ox_ok () feature_columns (Map.empty :: unit files)) = Inr True
   \<and> map_sum id snd (fst (main sk_ex ox_ok (Inr two_rows) Map.empty)) = Inr metrics_ex"
proof -
  have a: "fst (convert_to_onnx ox_failing () feature_columns (Map.empty :: unit files)) = Inr False"
    by (simp add: convert_to_onnx_def onnx_try_body_def ox_failing_def)
  have b: "fst (convert_to_onnx ox_ok () feature_columns (Map.empty :: unit files)) = Inr True"
    by (simp add: convert_to_onnx_def onnx_try_body_def ox_ok_def)
  have c: "map_sum id snd (fst (main sk_ex ox_ok (Inr two_rows) Map.empty))
       = map_sum id snd (fst (main sk_ex ox_failing (Inr two_rows) Map.empty))"
    using convert_to_onnx_never_raises [where ox = ox_ok and model = "()"
        and fc = feature_columns and fs = "Map.empty :: unit files"
        and sk = sk_ex and ox' = ox_failing and read_csv = "Inr two_rows" and ?fs0.0 = Map.empty]
    by (elim conjE)
  show ?thesis
    unfolding c main_two_rows using a b by simp
qed

subsection \<open>Standardized training data\<close>

lemma as_float_array_Inr:
  "as_float_array X = Inr cols \<Longrightarrow> X = map NumCol cols"
  by (induction X arbitrary: cols rule: as_float_array.induct) (auto split: sum.splits)

lemma scaler_fit_transform_Inr:
  assumes "scaler_fit_transform X = Inr (sc, Z)"
  shows "\<exists>cols. X = map NumCol cols \<and> cols \<noteq> [] \<and> n_samples X \<noteq> 0
     \<and> Z = map (\<lambda>xs. NumCol (standardize (col_mean xs) (handle_zeros_in_scale (col_std xs)) xs))
           cols"
proof -
  from assms have
    fit: "scaler_fit X = Inr sc" and tr: "scaler_transform sc X = Inr Z"
    by (auto simp: scaler_fit_transform_def split: sum.splits)
  from fit obtain cols where
    c: "check_array X = Inr cols" and
    sc: "sc = \<lparr> sc_mean = map col_mean cols,
                  sc_scale = map (\<lambda>xs. handle_zeros_in_scale (col_std xs)) cols \<rparr>"
    by (auto simp: scaler_fit_Inr)
  from c have a: "as_float_array X = Inr cols" and ne: "cols \<noteq> []" and n: "n_samples X \<noteq> 0"
    by (simp_all add: check_array_Inr)
  from tr c have "Z = map (\<lambda>(xs, m, s). NumCol (standardize m s xs))
                 (zip cols (zip (sc_mean sc) (sc_scale sc)))"
    by (simp add: scaler_transform_Inr)
  also have "\<dots> = map (\<lambda>xs. NumCol (standardize (col_mean xs)
                        (handle_zeros_in_scale (col_std xs)) xs)) cols"
    unfolding sc by (induction cols) simp_all
  finally show ?thesis
    using as_float_array_Inr [OF a] ne n by blast
qed

text \<open>
  C8 (amended). In exact arithmetic, every column of the standardized training matrix has
  mean 0; its standard deviation is 1 when the feature is not constant over the training
  partition, and 0 when it is constant (the column is then all zeros).
\<close>

theorem standardized_training_columns:
  assumes "scaler_fit_transform X = Inr (sc, Z)" and "rectangular X" and "j < length X"
  shows "\<exists>xs zs. X ! j = NumCol xs \<and> Z ! j = NumCol zs \<and> length zs = length xs
           \<and> col_mean zs = 0
           \<and> col_std zs = (if \<forall>x\<in>set xs. x = hd xs then 0 else 1)"
proof -
  from scaler_fit_transform_Inr [OF assms(1)] obtain cols where
    X: "X = map NumCol cols" and n: "n_samples X \<noteq> 0" and
    Z: "Z = map (\<lambda>xs. NumCol (standardize (col_mean xs)
                   (handle_zeros_in_scale (col_std xs)) xs)) cols"
    by blast
  from assms(3) X have j: "j < length cols" by simp
  let ?xs = "cols ! j"
  let ?zs = "standardize (col_mean ?xs) (handle_zeros_in_scale (col_std ?xs)) ?xs"
  have "X ! j \<in> set X" using assms(3) by simp
  with assms(2) have "col_len (X ! j) = n_samples X"
    by (simp add: rectangular_def list_all_iff)
  with n j X have ne: "?xs \<noteq> []" by auto
  have "X ! j = NumCol ?xs" using j X by simp
  moreover have "Z ! j = NumCol ?zs" using j Z by simp
  moreover have "length ?zs = length ?xs" by simp
  moreover have "col_mean ?zs = 0" using ne by (rule col_mean_standardize)
  moreover have "col_std ?zs = (if \<forall>x\<in>set ?xs. x = hd ?xs then 0 else 1)"
    using col_std_standardize [OF ne] col_std_zero_iff [OF ne] by simp
  ultimately show ?thesis by blast
qed

lemma one_country_scaled:
  "\<exists>sc Z. scaler_fit_transform one_country = Inr (sc, Z) \<and> Z ! 10 = NumCol [0, 0]"
  by (simp add: one_country_def scaler_fit_transform_def scaler_fit_def scaler_transform_def
      check_array_def n_samples_def standardize_def col_mean_def col_std_def col_var_def
      handle_zeros_in_scale_def)

text \<open>A training partition in which every transaction has the same country: the
  standardized \<open>country_encoded\<close> column is all zeros and its standard deviation is 0,
  not 1.\<close>

theorem constant_column_counterexample:
  "(case scaler_fit_transform one_country of
      Inl e \<Rightarrow> None
    | Inr (sc, Z) \<Rightarrow> (case Z ! 10 of NumCol zs \<Rightarrow> Some (zs, col_std zs) | StrCol _ \<Rightarrow> None))
   = Some ([0, 0], 0)"
  by (simp add: one_country_def scaler_fit_transform_def scaler_fit_def scaler_transform_def
      check_array_def n_samples_def standardize_def col_mean_def col_std_def col_var_def
      handle_zeros_in_scale_def)

theorem standardized_training_columns_witness:
  "rectangular one_country \<and> (10 :: nat) < length one_country
   \<and> (\<exists>sc Z zs. scaler_fit_transform one_country = Inr (sc, Z) \<and> Z ! 10 = NumCol zs
         \<and> col_mean zs = 0 \<and> col_std zs = 0)"
proof -
  from one_country_scaled obtain sc Z where
    a: "scaler_fit_transform one_country = Inr (sc, Z)" and z: "Z ! 10 = NumCol [0, 0]"
    by blast
  have r: "rectangular one_country"
    by (simp add: rectangular_def one_country_def n_samples_def)
  have l: "(10 :: nat) < length one_country"
    by (simp add: one_country_def)
  have x: "one_country ! 10 = NumCol [0, 0]"
    by (simp add: one_country_def)
  from standardized_training_columns [OF a r l] x z a r l show ?thesis
    by auto
qed

subsection \<open>Missing columns\<close>
















end
